theory Spec2Isabelle
  imports Main "HOL-Library.AList"
begin

section \<open>Strings, errors and the library calls the handlers use\<close>

text \<open>
  Go strings are byte sequences: \<open>string\<close>. A Go map is an association list with
  distinct keys; the order of the list is the order in which one \<open>range\<close> over the map
  visits it (Go leaves that order open, so a statement for every list covers every order).
  Lookup is \<open>map_of\<close>, assignment is \<open>AList.update\<close>, \<open>len\<close> is \<open>length\<close>.
\<close>

datatype error =
    ErrPermission           \<comment> \<open>\<open>os.ErrPermission\<close>\<close>
  | pidNotInContainerErr    \<comment> \<open>\<open>fmt.Errorf("pid not in container?")\<close>\<close>
  | ErrSyntax               \<comment> \<open>\<open>strconv.ErrSyntax\<close>\<close>
  | ErrRange                \<comment> \<open>\<open>strconv.ErrRange\<close>\<close>
  | ErrOther string         \<comment> \<open>an error handed back by a collaborator (file system, database, ...)\<close>

text \<open>\<open>strings.HasPrefix(s, prefix)\<close>.\<close>

definition HasPrefix :: "string \<Rightarrow> string \<Rightarrow> bool" where
  "HasPrefix s p = (length p \<le> length s \<and> take (length p) s = p)"


section \<open>The devlxd handlers\<close>

text \<open>
  The fields of \<open>lxdContainer\<close> that these files read: its name, its config map, the
  underlying lxc container \<open>c.c\<close> (field \<open>c_lxc\<close>, with what \<open>Running()\<close> and
  \<open>InitPid()\<close> answer) and the idmap set, present or nil; a present idmap set is the
  function \<open>ShiftIntoNs\<close> it offers.
\<close>

record lxc_Container =
  Running :: bool
  InitPid :: int

record lxdContainer =
  name :: string
  config :: "(string \<times> string) list"
  c_lxc :: lxc_Container
  idmapset :: "(int \<Rightarrow> int \<Rightarrow> int \<times> int) option"







section \<open>The exec session\<close>

text \<open>
  \<open>strconv.Itoa\<close> and \<open>strconv.Atoi\<close> (a Go \<open>int\<close> has 64 bits here).
\<close>

definition digit_char :: "nat \<Rightarrow> char" where
  "digit_char d = ''0123456789'' ! d"

definition digit_val :: "char \<Rightarrow> nat option" where
  "digit_val c = map_of (zip ''0123456789'' [0 ..< 10]) c"

fun digits :: "nat \<Rightarrow> string" where
  "digits n = (if n < 10 then [digit_char n] else digits (n div 10) @ [digit_char (n mod 10)])"

declare digits.simps [simp del]

definition Itoa :: "int \<Rightarrow> string" where
  "Itoa i = (if i < 0 then CHR ''-'' # digits (nat (- i)) else digits (nat i))"

text \<open>
  The digits are read as \<open>strconv.ParseUint\<close> reads them, into 64 bits: a byte that is
  no digit is a syntax error, and a value that leaves 64 bits is a range error at the
  digit where it does.
\<close>

fun ParseUint :: "string \<Rightarrow> int \<Rightarrow> error + int" where
  "ParseUint [] n = Inr n"
| "ParseUint (c # cs) n =
     (case digit_val c of
        None \<Rightarrow> Inl ErrSyntax
      | Some d \<Rightarrow>
          if (2 ^ 64 - 1) div 10 + 1 \<le> n \<or> 2 ^ 64 - 1 < 10 * n + int d then Inl ErrRange
          else ParseUint cs (10 * n + int d))"

definition Atoi :: "string \<Rightarrow> error + int" where
  "Atoi s =
     (let neg = (s \<noteq> [] \<and> hd s = CHR ''-'');
          ds = (if s \<noteq> [] \<and> (hd s = CHR ''-'' \<or> hd s = CHR ''+'') then tl s else s)
      in if ds = [] then Inl ErrSyntax
         else (case ParseUint ds 0 of
                 Inl e \<Rightarrow> Inl e
               | Inr n \<Rightarrow>
                   (let v = (if neg then - n else n)
                    in if v < - (2 ^ 63) \<or> 2 ^ 63 - 1 < v then Inl ErrRange else Inr v)))"

text \<open>
  The session. A \<open>*websocket.Conn\<close> is a number; an entry of \<open>conns\<close> holds \<open>None\<close> for
  nil. The channels \<open>allConnected\<close> and \<open>controlConnected\<close> are made with capacity 1:
  the field is the number of values waiting in the channel.
\<close>

type_synonym conn = nat

record AttachOptions =
  ClearEnv :: bool
  Env :: "string list"
  Cwd :: string
  StdinFd :: nat
  StdoutFd :: nat
  StderrFd :: nat

record execWs =
  command :: "string list"
  container :: lxc_Container
  options :: AttachOptions
  rootUid :: int
  rootGid :: int
  conns :: "(int \<times> conn option) list"
  allConnected :: nat
  controlConnected :: nat
  interactive :: bool
  fds :: "(int \<times> string) list"

text \<open>
  \<open>Metadata\<close>: the loop over \<open>s.fds\<close>, then the map with the one key \<open>fds\<close>.
\<close>

fun Metadata_range :: "(int \<times> string) list \<Rightarrow> (string \<times> string) list \<Rightarrow> (string \<times> string) list" where
  "Metadata_range [] acc = acc"
| "Metadata_range ((fd, secret) # rest) acc =
     (if fd = -1 then Metadata_range rest (AList.update ''control'' secret acc)
      else Metadata_range rest (AList.update (Itoa fd) secret acc))"

definition Metadata :: "execWs \<Rightarrow> (string \<times> (string \<times> string) list) list" where
  "Metadata s = [(''fds'', Metadata_range (fds s) [])]"

text \<open>
  Modelled from the spec: the reader of the advertised \<open>fds\<close> metadata, which is the
  client's side and not in these files. It takes the key \<open>control\<close> to the index -1 and
  a decimal key to its number, and leaves out any other key.
\<close>

fun decode_fds :: "(string \<times> string) list \<Rightarrow> (int \<times> string) list \<Rightarrow> (int \<times> string) list" where
  "decode_fds [] acc = acc"
| "decode_fds ((k, secret) # rest) acc =
     (if k = ''control'' then decode_fds rest (AList.update (-1) secret acc)
      else (case Atoi k of
              Inl e \<Rightarrow> decode_fds rest acc
            | Inr i \<Rightarrow> decode_fds rest (AList.update i secret acc)))"

definition decode_Metadata :: "(string \<times> (string \<times> string) list) list \<Rightarrow> (int \<times> string) list" where
  "decode_Metadata md = (case map_of md ''fds'' of None \<Rightarrow> [] | Some m \<Rightarrow> decode_fds m [])"

text \<open>
  \<open>Connect\<close>. The argument \<open>up\<close> is what \<open>WebsocketUpgrader.Upgrade\<close> answers if it is
  called. The result says how the call ends (it returns an error or nil, or it waits at
  a send on a full channel), whether \<open>Upgrade\<close> was called, and the session it leaves.
\<close>

datatype 'a outcome = Returns 'a | WaitsAtSend

record Connect_result =
  ret :: "error option outcome"
  upgraded :: bool
  session :: execWs

text \<open>The inner loop over \<open>s.conns\<close>: does it reach \<open>return nil\<close>?\<close>

fun conns_range :: "(int \<times> conn option) list \<Rightarrow> bool" where
  "conns_range [] = False"
| "conns_range ((i, c) # rest) = (if i \<noteq> -1 \<and> c = None then True else conns_range rest)"

fun Connect_range :: "(int \<times> string) list \<Rightarrow> execWs \<Rightarrow> string \<Rightarrow> string + conn \<Rightarrow> Connect_result" where
  "Connect_range [] s secret up =
     \<lparr>ret = Returns (Some ErrPermission), upgraded = False, session = s\<rparr>"
| "Connect_range ((fd, fdSecret) # rest) s secret up =
     (if secret = fdSecret then
        (case up of
           Inl e \<Rightarrow> \<lparr>ret = Returns (Some (ErrOther e)), upgraded = True, session = s\<rparr>
         | Inr conn \<Rightarrow>
             (let s1 = s\<lparr>conns := AList.update fd (Some conn) (conns s)\<rparr>
              in if fd = -1 then
                   (if controlConnected s1 < 1
                    then \<lparr>ret = Returns None, upgraded = True,
                          session = s1\<lparr>controlConnected := controlConnected s1 + 1\<rparr>\<rparr>
                    else \<lparr>ret = WaitsAtSend, upgraded = True, session = s1\<rparr>)
                 else if conns_range (conns s1) then
                   \<lparr>ret = Returns None, upgraded = True, session = s1\<rparr>
                 else
                   (if allConnected s1 < 1
                    then \<lparr>ret = Returns None, upgraded = True,
                          session = s1\<lparr>allConnected := allConnected s1 + 1\<rparr>\<rparr>
                    else \<lparr>ret = WaitsAtSend, upgraded = True, session = s1\<rparr>)))
      else Connect_range rest s secret up)"

definition Connect :: "execWs \<Rightarrow> string \<Rightarrow> string + conn \<Rightarrow> Connect_result" where
  "Connect s secret up = Connect_range (fds s) s secret up"

text \<open>
  Modelled from the spec: the status under which the caller of \<open>Connect\<close> (the
  operation's websocket handler, not in these files) reports its error. The spec and the
  comment in \<open>Connect\<close> give one line of that table: a permission error is a 403.
\<close>

definition attach_status :: "error \<Rightarrow> nat option" where
  "attach_status e = (if e = ErrPermission then Some 403 else None)"

text \<open>
  \<open>containerExecPost\<close>. The daemon answers \<open>newLxdContainer(name, d)\<close> (and
  \<open>dbListContainers(d)\<close>, for the resolver below); \<open>exec_world\<close> adds what the handler
  asks of its other collaborators: \<open>json.Unmarshal\<close> into a \<open>commandPostContent\<close>, the
  successive answers of \<open>shared.RandomCryptoString\<close> and \<open>lxc.DefaultAttachOptions\<close>.
  An error of a collaborator is its message. The argument \<open>body\<close> is what
  \<open>ioutil.ReadAll(r.Body)\<close> answers.
\<close>

record commandPostContent =
  Command :: "string list"
  WaitForWS :: bool
  Interactive :: bool
  Environment :: "(string \<times> string) list"

record Daemon =
  newLxdContainer :: "string \<Rightarrow> string + lxdContainer"
  dbListContainers :: "string + string list"

record exec_world = Daemon +
  Unmarshal :: "string \<Rightarrow> string + commandPostContent"
  RandomCryptoString :: "nat \<Rightarrow> string + string"
  DefaultAttachOptions :: AttachOptions

datatype Response =
    SmartError error
  | BadRequest error
  | InternalError error
  | AsyncResponseWithWs execWs
  | AsyncResponse "string list" AttachOptions
      \<comment> \<open>the closure \<open>run\<close>, which holds \<open>post.Command\<close> and \<open>opts\<close>\<close>

text \<open>The loop over \<open>post.Environment\<close>; \<open>k @ ''='' @ v\<close> is \<open>fmt.Sprintf("%s=%s", k, v)\<close>.\<close>

fun Environment_range :: "(string \<times> string) list \<Rightarrow> AttachOptions \<Rightarrow> AttachOptions" where
  "Environment_range [] opts = opts"
| "Environment_range ((k, v) # rest) opts =
     Environment_range rest
       ((if k = ''HOME'' then opts\<lparr>Cwd := v\<rparr> else opts)
          \<lparr>Env := Env opts @ [k @ ''='' @ v]\<rparr>)"

text \<open>
  The loop \<open>for i := -1; i < len(ws.conns)-1; i++\<close>; \<open>n\<close> is \<open>len(ws.conns)\<close> and
  \<open>rnd k\<close> the answer of the call number \<open>k\<close> of \<open>RandomCryptoString\<close>.
\<close>

function fds_loop :: "(nat \<Rightarrow> string + string) \<Rightarrow> int \<Rightarrow> int \<Rightarrow> (int \<times> string) list
    \<Rightarrow> error + (int \<times> string) list" where
  "fds_loop rnd n i acc =
     (if i < n - 1 then
        (case rnd (nat (i + 1)) of
           Inl e \<Rightarrow> Inl (ErrOther e)
         | Inr secret \<Rightarrow> fds_loop rnd n (i + 1) (AList.update i secret acc))
      else Inr acc)"
  by pat_completeness auto
termination
  by (relation "measure (\<lambda>(rnd, n, i, acc). nat (n - 1 - i))") auto

declare fds_loop.simps [simp del]

definition new_conns :: "bool \<Rightarrow> (int \<times> conn option) list" where
  "new_conns ia =
     (let cs = AList.update 0 None (AList.update (-1) None [])
      in if \<not> ia then AList.update 2 None (AList.update 1 None cs) else cs)"

definition containerExecPost :: "exec_world \<Rightarrow> string \<Rightarrow> string + string \<Rightarrow> Response" where
  "containerExecPost d nm body =
     (case newLxdContainer d nm of
        Inl e \<Rightarrow> SmartError (ErrOther e)
      | Inr c \<Rightarrow>
          if \<not> Running (c_lxc c) then BadRequest (ErrOther ''Container is not running.'')
          else
            (case body of
               Inl e \<Rightarrow> BadRequest (ErrOther e)
             | Inr buf \<Rightarrow>
                 (case Unmarshal d buf of
                    Inl e \<Rightarrow> BadRequest (ErrOther e)
                  | Inr post \<Rightarrow>
                      (let opts = Environment_range (Environment post)
                                    ((DefaultAttachOptions d)\<lparr>ClearEnv := True, Env := []\<rparr>)
                       in if WaitForWS post then
                            (let ids = (case idmapset c of None \<Rightarrow> (0, 0) | Some shift \<Rightarrow> shift 0 0);
                                 cs = new_conns (Interactive post)
                             in case fds_loop (RandomCryptoString d) (int (length cs)) (-1) [] of
                                  Inl e \<Rightarrow> InternalError e
                                | Inr f \<Rightarrow>
                                    AsyncResponseWithWs
                                      \<lparr>command = Command post, container = c_lxc c, options = opts,
                                       rootUid = fst ids, rootGid = snd ids, conns = cs,
                                       allConnected = 0, controlConnected = 0,
                                       interactive = Interactive post, fds = f\<rparr>)
                          else AsyncResponse (Command post) opts))))"

text \<open>The predicates the statements below use.\<close>

definition is_BadRequest :: "Response \<Rightarrow> bool" where
  "is_BadRequest r = (case r of BadRequest e \<Rightarrow> True | _ \<Rightarrow> False)"

definition is_int64 :: "int \<Rightarrow> bool" where
  "is_int64 i = (- (2 ^ 63) \<le> i \<and> i \<le> 2 ^ 63 - 1)"

definition fd_key :: "int \<Rightarrow> string" where
  "fd_key fd = (if fd = -1 then ''control'' else Itoa fd)"

section \<open>The run of an exec session\<close>

text \<open>
  \<open>runCommand\<close>; \<open>r\<close> is what \<open>container.RunCommandStatus\<close> answers. The result
  \<open>OperationReturn status\<close> is the metadata \<open>{"return": status}\<close>.
\<close>

datatype OperationResult = OperationError error | OperationReturn int

definition runCommand :: "string + int \<Rightarrow> OperationResult" where
  "runCommand r = (case r of Inl e \<Rightarrow> OperationError (ErrOther e) | Inr status \<Rightarrow> OperationReturn status)"

text \<open>
  \<open>Do\<close> runs next to the attach handler, the goroutines it starts and the process in the
  container, so it is a transition system: one step per point where \<open>Do\<close> or one of its
  goroutines waits or calls out.

  \<^item> \<open>Do_pc\<close> is the place of \<open>Do\<close> itself: at \<open><-s.allConnected\<close>, at the allocation of
    the pty or the pipes, inside \<open>runCommand\<close>, at \<open><-stdEOF\<close>, at the two closing
    loops, at \<open>controlExit <- true\<close>, or returned.
  \<^item> \<open>bridge\<close> is the place of goroutine \<open>i\<close> of the batch branch: its stream runs,
    or (for 1 and 2) it waits at \<open>stdEOF <- true\<close>, or it is over. \<open>stdEOF\<close> has no
    buffer, so a send and the receive are one step.
  \<^item> \<open>reader\<close> is the place of the control reader of the interactive branch: at its
    \<open>select\<close>, in its loop, or gone. The messages it handles are not followed.
  \<^item> \<open>calls\<close> lists the calls of \<open>shared.OpenPty\<close> and \<open>shared.Pipe\<close> made so far.

  A connect call is one step, which leaves the session as \<open>Connect\<close> leaves it; a call
  that waits at its send is not followed further. The descriptors that \<open>Do\<close> writes into
  \<open>s.options\<close> are numbers the system picks and are not followed either.
\<close>

datatype stdio_call = OpenPty int int | Pipe

datatype Do_pc =
    AtAllConnected
  | AtStdio
  | AtRunCommand
  | AtStdEOF OperationResult
  | AtClose OperationResult
  | AtControlExit OperationResult
  | Returned OperationResult

datatype bridge = Streaming | AtSend | Finished

datatype reader = NoReader | AtSelect | Reading | Gone

record Do_state =
  ws :: execWs
  pc :: Do_pc
  calls :: "stdio_call list"
  bridges :: "bridge list"
  reader :: reader

text \<open>
  The loop \<open>for i := 0; i < len(ttys); i++\<close> around \<open>shared.Pipe()\<close>; \<open>errs\<close> are the
  errors of the successive calls (\<open>None\<close>, or no entry, for nil).
\<close>

fun Pipe_loop :: "nat \<Rightarrow> string option list \<Rightarrow> stdio_call list \<Rightarrow> stdio_call list \<times> string option" where
  "Pipe_loop 0 errs cs = (cs, None)"
| "Pipe_loop (Suc n) [] cs = Pipe_loop n [] (cs @ [Pipe])"
| "Pipe_loop (Suc n) (None # errs) cs = Pipe_loop n errs (cs @ [Pipe])"
| "Pipe_loop (Suc n) (Some e # errs) cs = (cs @ [Pipe], Some e)"

datatype event =
    Attach string "string + conn"   \<comment> \<open>a call of \<open>Connect\<close> by the attach handler\<close>
  | RecvAllConnected                \<comment> \<open>\<open><-s.allConnected\<close> receives\<close>
  | Stdio "string option list"      \<comment> \<open>the pty or the pipes are allocated, the goroutines started\<close>
  | CommandReturns "string + int"   \<comment> \<open>\<open>runCommand\<close> returns\<close>
  | StreamEnds nat                  \<comment> \<open>the stream of goroutine \<open>i\<close> ends and it closes its end\<close>
  | RecvStdEOF nat                  \<comment> \<open>\<open><-stdEOF\<close> receives what goroutine \<open>i\<close> sends\<close>
  | CloseAll                        \<comment> \<open>the two closing loops\<close>
  | SendControlExit                 \<comment> \<open>the reader's \<open>select\<close> receives \<open>controlExit <- true\<close>\<close>
  | ReaderAttached                  \<comment> \<open>the reader's \<open>select\<close> receives from \<open>controlConnected\<close>\<close>
  | ReaderEnds                      \<comment> \<open>the reader's loop breaks\<close>

fun Do_step :: "event \<Rightarrow> Do_state \<Rightarrow> Do_state option" where
  "Do_step (Attach secret up) st = Some (st\<lparr>ws := session (Connect (ws st) secret up)\<rparr>)"
| "Do_step RecvAllConnected st =
     (if pc st = AtAllConnected \<and> 0 < allConnected (ws st)
      then Some (st\<lparr>ws := (ws st)\<lparr>allConnected := allConnected (ws st) - 1\<rparr>, pc := AtStdio\<rparr>)
      else None)"
| "Do_step (Stdio errs) st =
     (if pc st \<noteq> AtStdio then None
      else if interactive (ws st) then
        Some (st\<lparr>calls := calls st @ [OpenPty (rootUid (ws st)) (rootGid (ws st))],
                 reader := AtSelect, pc := AtRunCommand\<rparr>)
      else
        (case Pipe_loop 3 errs (calls st) of
           (cs, Some e) \<Rightarrow> Some (st\<lparr>calls := cs, pc := Returned (OperationError (ErrOther e))\<rparr>)
         | (cs, None) \<Rightarrow>
             Some (st\<lparr>calls := cs, bridges := [Streaming, Streaming, Streaming],
                      pc := AtRunCommand\<rparr>)))"
| "Do_step (CommandReturns r) st =
     (if pc st = AtRunCommand
      then Some (st\<lparr>pc := (if interactive (ws st) then AtClose (runCommand r)
                             else AtStdEOF (runCommand r))\<rparr>)
      else None)"
| "Do_step (StreamEnds i) st =
     (if i < length (bridges st) \<and> bridges st ! i = Streaming
      then Some (st\<lparr>bridges := (bridges st)[i := (if i = 0 then Finished else AtSend)]\<rparr>)
      else None)"
| "Do_step (RecvStdEOF i) st =
     (case pc st of
        AtStdEOF r \<Rightarrow>
          (if i < length (bridges st) \<and> bridges st ! i = AtSend
           then Some (st\<lparr>bridges := (bridges st)[i := Finished], pc := AtClose r\<rparr>)
           else None)
      | _ \<Rightarrow> None)"
| "Do_step CloseAll st =
     (case pc st of
        AtClose r \<Rightarrow>
          (if interactive (ws st) \<and> map_of (conns (ws st)) (-1) \<in> {None, Some None}
           then Some (st\<lparr>pc := AtControlExit r\<rparr>)
           else Some (st\<lparr>pc := Returned r\<rparr>))
      | _ \<Rightarrow> None)"
| "Do_step SendControlExit st =
     (case pc st of
        AtControlExit r \<Rightarrow>
          (if reader st = AtSelect then Some (st\<lparr>reader := Gone, pc := Returned r\<rparr>) else None)
      | _ \<Rightarrow> None)"
| "Do_step ReaderAttached st =
     (if reader st = AtSelect \<and> 0 < controlConnected (ws st)
      then Some (st\<lparr>ws := (ws st)\<lparr>controlConnected := controlConnected (ws st) - 1\<rparr>,
                    reader := Reading\<rparr>)
      else None)"
| "Do_step ReaderEnds st =
     (if reader st = Reading then Some (st\<lparr>reader := Gone\<rparr>) else None)"

fun Do_run :: "event list \<Rightarrow> Do_state \<Rightarrow> Do_state option" where
  "Do_run [] st = Some st"
| "Do_run (e # es) st = (case Do_step e st of None \<Rightarrow> None | Some st' \<Rightarrow> Do_run es st')"

definition Do_init :: "execWs \<Rightarrow> Do_state" where
  "Do_init s = \<lparr>ws = s, pc = AtAllConnected, calls = [], bridges = [], reader = NoReader\<rparr>"

text \<open>
  Two invariants of the runs of \<open>Do\<close>. \<open>pty_inv uid gid\<close>, for an interactive session:
  the session keeps its ids, and the calls made are none before the pty is allocated
  and the one \<open>OpenPty uid gid\<close> after. \<open>batch_inv\<close>, for a batch session: no output
  goroutine has passed its send while \<open>Do\<close> has not received from \<open>stdEOF\<close>, and exactly
  one has once it did.
\<close>

definition pty_inv :: "int \<Rightarrow> int \<Rightarrow> Do_state \<Rightarrow> bool" where
  "pty_inv uid gid st =
     (interactive (ws st) \<and> rootUid (ws st) = uid \<and> rootGid (ws st) = gid \<and>
      calls st = (if pc st \<in> {AtAllConnected, AtStdio} then [] else [OpenPty uid gid]))"

definition passed_send :: "Do_state \<Rightarrow> nat" where
  "passed_send st = length (filter (\<lambda>b. b = Finished) (tl (bridges st)))"

definition batch_inv :: "Do_state \<Rightarrow> bool" where
  "batch_inv st =
     (\<not> interactive (ws st) \<and> (bridges st = [] \<or> hd (bridges st) \<noteq> AtSend) \<and>
      (case pc st of
         AtAllConnected \<Rightarrow> bridges st = []
       | AtStdio \<Rightarrow> bridges st = []
       | AtRunCommand \<Rightarrow> length (bridges st) = 3 \<and> passed_send st = 0
       | AtStdEOF r \<Rightarrow> length (bridges st) = 3 \<and> passed_send st = 0
       | AtClose r \<Rightarrow> length (bridges st) = 3 \<and> passed_send st = 1
       | AtControlExit r \<Rightarrow> False
       | Returned r \<Rightarrow> bridges st = [] \<or> (length (bridges st) = 3 \<and> passed_send st = 1)))"

section \<open>The peer-credential resolver\<close>

text \<open>
  What \<open>findContainerForPid\<close> reads: \<open>proc\<close> holds the answers of
  \<open>ioutil.ReadFile("/proc/<pid>/cmdline")\<close>, \<open>ioutil.ReadFile("/proc/<pid>/status")\<close>
  and \<open>os.Readlink("/proc/<pid>/ns/pid")\<close>, by pid; the daemon answers
  \<open>newLxdContainer(name, d)\<close> and \<open>dbListContainers(d)\<close>. An error of one of them is its
  message, which the code hands on as it is (\<open>ErrOther\<close>).
\<close>

record proc =
  cmdline :: "int \<Rightarrow> string + string"
  status :: "int \<Rightarrow> string + string"
  ns_pid :: "int \<Rightarrow> string + string"

text \<open>\<open>strings.Split(s, sep)\<close> for a separator of one byte.\<close>

fun Split :: "string \<Rightarrow> char \<Rightarrow> string list" where
  "Split [] sep = [[]]"
| "Split (c # cs) sep =
     (if c = sep then [] # Split cs sep
      else (case Split cs sep of [] \<Rightarrow> [[c]] | x # xs \<Rightarrow> (c # x) # xs))"

text \<open>The conversion \<open>int32(result)\<close> of a Go \<open>int\<close>: it wraps.\<close>

definition int32 :: "int \<Rightarrow> int" where
  "int32 x = (x + 2 ^ 31) mod 2 ^ 32 - 2 ^ 31"

text \<open>
  \<open>regexp.MustCompile("PPid:\\s*([0-9]*)").FindStringSubmatch(line)\<close>: the leftmost
  \<open>PPid:\<close> of the line, then all the white space that follows (\<open>\s\<close> is tab, newline,
  form feed, carriage return and space), then all the digits that follow; the answer
  is the whole match and the digits, or nil (\<open>None\<close>) when the line has no \<open>PPid:\<close>.
\<close>

definition is_space :: "char \<Rightarrow> bool" where
  "is_space c = (c \<in> set [CHR 0x09, CHR 0x0A, CHR 0x0C, CHR 0x0D, CHR '' ''])"

definition is_digit :: "char \<Rightarrow> bool" where
  "is_digit c = (c \<in> set ''0123456789'')"

fun find_after :: "string \<Rightarrow> string \<Rightarrow> string option" where
  "find_after pat [] = (if pat = [] then Some [] else None)"
| "find_after pat (c # cs) =
     (if HasPrefix (c # cs) pat then Some (drop (length pat) (c # cs)) else find_after pat cs)"

definition FindStringSubmatch_PPid :: "string \<Rightarrow> string list option" where
  "FindStringSubmatch_PPid line =
     (case find_after ''PPid:'' line of
        None \<Rightarrow> None
      | Some rest \<Rightarrow>
          (let sp = takeWhile is_space rest;
               ds = takeWhile is_digit (dropWhile is_space rest)
           in Some [''PPid:'' @ sp @ ds, ds]))"

text \<open>
  The loop over the lines of the status file: the new pid, an error, or \<open>None\<close> when no
  line matches and \<open>pid\<close> stays as it is.
\<close>

fun status_range :: "string list \<Rightarrow> (error + int) option" where
  "status_range [] = None"
| "status_range (line # rest) =
     (case FindStringSubmatch_PPid line of
        None \<Rightarrow> status_range rest
      | Some m \<Rightarrow>
          (if 1 < length m then
             (case Atoi (m ! 1) of
                Inl e \<Rightarrow> Some (Inl e)
              | Inr result \<Rightarrow> Some (Inr (int32 result)))
           else status_range rest))"

text \<open>The loop over \<open>containers\<close>, with its \<open>return nil, pidNotInContainerErr\<close> at the end.\<close>

fun containers_range :: "proc \<Rightarrow> 'a Daemon_scheme \<Rightarrow> string \<Rightarrow> string list \<Rightarrow> error + lxdContainer" where
  "containers_range pr d origPidNs [] = Inl pidNotInContainerErr"
| "containers_range pr d origPidNs (cn # rest) =
     (case newLxdContainer d cn of
        Inl e \<Rightarrow> Inl (ErrOther e)
      | Inr c \<Rightarrow>
          (case ns_pid pr (InitPid (c_lxc c)) of
             Inl e \<Rightarrow> Inl (ErrOther e)
           | Inr pidNs \<Rightarrow>
               if origPidNs = pidNs then Inr c else containers_range pr d origPidNs rest))"

text \<open>The part of \<open>findContainerForPid\<close> after its first loop.\<close>

definition pidns_lookup :: "proc \<Rightarrow> 'a Daemon_scheme \<Rightarrow> int \<Rightarrow> error + lxdContainer" where
  "pidns_lookup pr d origpid =
     (case ns_pid pr origpid of
        Inl e \<Rightarrow> Inl (ErrOther e)
      | Inr origPidNs \<Rightarrow>
          (case dbListContainers d of
             Inl e \<Rightarrow> Inl (ErrOther e)
           | Inr containers \<Rightarrow> containers_range pr d origPidNs containers))"

text \<open>
  \<open>findContainerForPid\<close>. The loop \<open>for pid > 1\<close> need not end (a status file with no
  \<open>PPid:\<close> line leaves \<open>pid\<close> as it is), so it takes fuel: the number of rounds it may
  make; \<open>None\<close> says the fuel ran out.
\<close>

fun findContainerForPid_loop ::
    "nat \<Rightarrow> proc \<Rightarrow> 'a Daemon_scheme \<Rightarrow> int \<Rightarrow> int \<Rightarrow> (error + lxdContainer) option" where
  "findContainerForPid_loop 0 pr d origpid pid =
     (if 1 < pid then None else Some (pidns_lookup pr d origpid))"
| "findContainerForPid_loop (Suc fuel) pr d origpid pid =
     (if 1 < pid then
        (case cmdline pr pid of
           Inl e \<Rightarrow> Some (Inl (ErrOther e))
         | Inr cl \<Rightarrow>
             if HasPrefix cl ''[lxc monitor]'' then
               Some (case newLxdContainer d (last (Split cl CHR '' '')) of
                       Inl e \<Rightarrow> Inl (ErrOther e)
                     | Inr c \<Rightarrow> Inr c)
             else
               (case status pr pid of
                  Inl e \<Rightarrow> Some (Inl (ErrOther e))
                | Inr st \<Rightarrow>
                    (case status_range (Split st (CHR 0x0A)) of
                       None \<Rightarrow> findContainerForPid_loop fuel pr d origpid pid
                     | Some (Inl e) \<Rightarrow> Some (Inl e)
                     | Some (Inr ppid) \<Rightarrow> findContainerForPid_loop fuel pr d origpid ppid)))
      else Some (pidns_lookup pr d origpid))"

definition findContainerForPid ::
    "nat \<Rightarrow> proc \<Rightarrow> 'a Daemon_scheme \<Rightarrow> int \<Rightarrow> (error + lxdContainer) option" where
  "findContainerForPid fuel pr d pid = findContainerForPid_loop fuel pr d pid pid"

text \<open>
  The words of the statements about the resolver. \<open>parent pr p\<close> is the parent that the
  status file of \<open>p\<close> names. \<open>walk_chain pr ps\<close>: every pid of \<open>ps\<close> but the last is
  above 1, has a readable command line that is not a monitor's, and its parent is the
  next pid of \<open>ps\<close>. \<open>loads_other pr d ns cn\<close>: the container \<open>cn\<close> loads, the
  namespace link of its init can be read and is not \<open>ns\<close>. \<open>load_fails pr d cn e\<close>:
  loading \<open>cn\<close> or reading the link of its init fails with \<open>e\<close>.
\<close>

definition parent :: "proc \<Rightarrow> int \<Rightarrow> int option" where
  "parent pr p =
     (case status pr p of
        Inl e \<Rightarrow> None
      | Inr st \<Rightarrow>
          (case status_range (Split st (CHR 0x0A)) of Some (Inr q) \<Rightarrow> Some q | _ \<Rightarrow> None))"

definition no_monitor :: "proc \<Rightarrow> int \<Rightarrow> bool" where
  "no_monitor pr p =
     (case cmdline pr p of Inl e \<Rightarrow> False | Inr cl \<Rightarrow> \<not> HasPrefix cl ''[lxc monitor]'')"

fun walk_chain :: "proc \<Rightarrow> int list \<Rightarrow> bool" where
  "walk_chain pr [] = True"
| "walk_chain pr [p] = True"
| "walk_chain pr (p # q # ps) =
     (1 < p \<and> no_monitor pr p \<and> parent pr p = Some q \<and> walk_chain pr (q # ps))"

definition loads_other :: "proc \<Rightarrow> 'a Daemon_scheme \<Rightarrow> string \<Rightarrow> string \<Rightarrow> bool" where
  "loads_other pr d ns cn =
     (case newLxdContainer d cn of
        Inl e \<Rightarrow> False
      | Inr c \<Rightarrow> (case ns_pid pr (InitPid (c_lxc c)) of Inl e \<Rightarrow> False | Inr l \<Rightarrow> l \<noteq> ns))"

definition load_fails :: "proc \<Rightarrow> 'a Daemon_scheme \<Rightarrow> string \<Rightarrow> string \<Rightarrow> bool" where
  "load_fails pr d cn e =
     (case newLxdContainer d cn of
        Inl e' \<Rightarrow> e' = e
      | Inr c \<Rightarrow> ns_pid pr (InitPid (c_lxc c)) = Inl e)"

section \<open>Example inputs\<close>

definition c1 :: lxdContainer where
  "c1 = \<lparr>name = ''c1'', config = [(''user.foo'', ''bar''), (''limits.memory'', ''1GB'')],
         c_lxc = \<lparr>Running = True, InitPid = 4242\<rparr>, idmapset = None\<rparr>"

definition post_batch :: commandPostContent where
  "post_batch = \<lparr>Command = [''/bin/sh'', ''-c'', ''echo out; echo err 1>&2''], WaitForWS = True,
                 Interactive = False, Environment = []\<rparr>"

definition post_pty :: commandPostContent where
  "post_pty = \<lparr>Command = [''/bin/cat''], WaitForWS = True, Interactive = True,
               Environment = [(''HOME'', ''/root'')]\<rparr>"

definition post_noargv :: commandPostContent where
  "post_noargv = \<lparr>Command = [], WaitForWS = False, Interactive = False, Environment = []\<rparr>"

definition body_batch :: string where
  "body_batch =
     ''{\"command\":[\"/bin/sh\",\"-c\",\"echo out; echo err 1>&2\"],\"wait-for-websocket\":true,\"interactive\":false}''"

definition body_pty :: string where
  "body_pty =
     ''{\"command\":[\"/bin/cat\"],\"environment\":{\"HOME\":\"/root\"},\"wait-for-websocket\":true,\"interactive\":true}''"

definition world0 :: exec_world where
  "world0 =
     \<lparr>newLxdContainer = (\<lambda>n. if n = ''c1'' then Inr c1 else Inl ''no such container''),
      dbListContainers = Inr [''c1''],
      Unmarshal = (\<lambda>b. if b = ''{\"command\":[]}'' then Inr post_noargv
                        else if b = body_batch then Inr post_batch
                        else if b = body_pty then Inr post_pty
                        else Inl ''invalid character''),
      RandomCryptoString = (\<lambda>k. Inr (''secret'' @ digits k)),
      DefaultAttachOptions =
        \<lparr>ClearEnv = False, Env = [], Cwd = ''/'', StdinFd = 0, StdoutFd = 1, StderrFd = 2\<rparr>\<rparr>"

definition ws_batch :: execWs where
  "ws_batch =
     \<lparr>command = [''/bin/sh'', ''-c'', ''echo out; echo err 1>&2''],
      container = \<lparr>Running = True, InitPid = 4242\<rparr>,
      options = \<lparr>ClearEnv = True, Env = [], Cwd = ''/'', StdinFd = 0, StdoutFd = 1, StderrFd = 2\<rparr>,
      rootUid = 0, rootGid = 0,
      conns = [(- 1, None), (0, None), (1, None), (2, None)],
      allConnected = 0, controlConnected = 0, interactive = False,
      fds = [(- 1, ''secret0''), (0, ''secret1''), (1, ''secret2''), (2, ''secret3'')]\<rparr>"

definition ws_pty :: execWs where
  "ws_pty =
     \<lparr>command = [''/bin/cat''],
      container = \<lparr>Running = True, InitPid = 4242\<rparr>,
      options = \<lparr>ClearEnv = True, Env = [''HOME=/root''], Cwd = ''/root'',
                 StdinFd = 0, StdoutFd = 1, StderrFd = 2\<rparr>,
      rootUid = 0, rootGid = 0,
      conns = [(- 1, None), (0, None)],
      allConnected = 0, controlConnected = 0, interactive = True,
      fds = [(- 1, ''secret0''), (0, ''secret1'')]\<rparr>"

text \<open>
  A host with two containers. \<open>c0\<close> has init 3000; \<open>c1\<close> has init 4242, started by the
  monitor 4000, and the process 4300 below its init. The shell 5000 was started into
  \<open>c1\<close> by the daemon 900, so its ancestors are 900 and 1: no monitor. \<open>daemon1\<close> is
  \<open>daemon0\<close> at a moment when \<open>c0\<close> cannot be loaded.
\<close>

definition status_text :: "string \<Rightarrow> string \<Rightarrow> string" where
  "status_text nm ppid =
     ''Name:'' @ [CHR 0x09] @ nm @ [CHR 0x0A] @ ''State:'' @ [CHR 0x09] @ ''S (sleeping)'' @ [CHR 0x0A] @
     ''Tgid:'' @ [CHR 0x09] @ ''77'' @ [CHR 0x0A] @ ''PPid:'' @ [CHR 0x09] @ ppid @ [CHR 0x0A]"

definition proc0 :: proc where
  "proc0 =
     \<lparr>cmdline = (\<lambda>p. if p = 4300 then Inr ''sleep''
                      else if p = 4242 then Inr ''/sbin/init''
                      else if p = 4000 then Inr ''[lxc monitor] /var/lib/lxd/containers c1''
                      else if p = 5000 then Inr ''bash''
                      else if p = 900 then Inr ''lxd''
                      else Inl ''no such file or directory''),
      status = (\<lambda>p. if p = 4300 then Inr (status_text ''sleep'' ''4242'')
                     else if p = 4242 then Inr (status_text ''init'' ''4000'')
                     else if p = 4000 then Inr (status_text ''lxc-start'' ''1'')
                     else if p = 5000 then Inr (status_text ''bash'' ''900'')
                     else if p = 900 then Inr (status_text ''lxd'' ''1'')
                     else Inl ''no such file or directory''),
      ns_pid = (\<lambda>p. if p = 4242 \<or> p = 4300 \<or> p = 5000 then Inr ''pid:[4026532200]''
                     else if p = 3000 then Inr ''pid:[4026532100]''
                     else if p = 1 \<or> p = 900 \<or> p = 4000 then Inr ''pid:[4026531836]''
                     else Inl ''no such file or directory'')\<rparr>"

definition c0 :: lxdContainer where
  "c0 = \<lparr>name = ''c0'', config = [], c_lxc = \<lparr>Running = True, InitPid = 3000\<rparr>, idmapset = None\<rparr>"

definition daemon0 :: Daemon where
  "daemon0 =
     \<lparr>newLxdContainer = (\<lambda>n. if n = ''c0'' then Inr c0 else if n = ''c1'' then Inr c1
                              else Inl ''no such container''),
      dbListContainers = Inr [''c0'', ''c1'']\<rparr>"

definition daemon1 :: Daemon where
  "daemon1 =
     \<lparr>newLxdContainer = (\<lambda>n. if n = ''c1'' then Inr c1 else Inl ''database is locked''),
      dbListContainers = Inr [''c0'', ''c1'']\<rparr>"

section \<open>Properties of the devlxd handlers\<close>







section \<open>Properties of the attach handler\<close>

lemma Connect_range_no_match:
  "secret \<notin> snd ` set xs \<Longrightarrow>
   Connect_range xs s secret up = \<lparr>ret = Returns (Some ErrPermission), upgraded = False, session = s\<rparr>"
  by (induction xs) auto

lemma Connect_range_upgraded:
  "upgraded (Connect_range xs s secret up) \<Longrightarrow> secret \<in> snd ` set xs"
  by (induction xs) (auto split: if_splits sum.splits simp: Let_def)

lemma Connect_range_first:
  "find (\<lambda>p. snd p = secret) xs = Some (fd, x) \<Longrightarrow>
   Connect_range xs s secret (Inl e) = \<lparr>ret = Returns (Some (ErrOther e)), upgraded = True, session = s\<rparr> \<and>
   ret (Connect_range xs s secret (Inr new)) \<in> {Returns None, WaitsAtSend} \<and>
   conns (session (Connect_range xs s secret (Inr new))) = AList.update fd (Some new) (conns s)"
  by (induction xs) (auto simp: Let_def split: if_splits)

lemma Connect_range_frame:
  "interactive (session (Connect_range xs s secret up)) = interactive s \<and>
   rootUid (session (Connect_range xs s secret up)) = rootUid s \<and>
   rootGid (session (Connect_range xs s secret up)) = rootGid s \<and>
   fds (session (Connect_range xs s secret up)) = fds s"
  by (induction xs) (auto simp: Let_def split: sum.splits if_splits)

lemma digits_small: "n < 10 \<Longrightarrow> digits n = [digit_char n]"
  by (simp add: digits.simps)

lemma ws_batch_created:
  "containerExecPost world0 ''c1'' (Inr body_batch) = AsyncResponseWithWs ws_batch"
  by (simp add: containerExecPost_def world0_def c1_def post_batch_def new_conns_def
      fds_loop.simps ws_batch_def digits_small digit_char_def body_batch_def)

lemma ws_pty_created:
  "containerExecPost world0 ''c1'' (Inr body_pty) = AsyncResponseWithWs ws_pty"
  by (simp add: containerExecPost_def world0_def c1_def post_pty_def new_conns_def
      fds_loop.simps ws_pty_def digits_small digit_char_def body_batch_def body_pty_def)

text \<open>
  C4. A connect call whose secret is none of the session's secrets returns the permission
  error, which the caller reports as 403; \<open>Upgrade\<close> is not called and the session is
  left as it was. And whenever \<open>Upgrade\<close> is called, the secret is one of the session's.
\<close>

theorem Connect_unknown_secret:
  "(secret \<notin> snd ` set (fds s) \<longrightarrow>
      Connect s secret up = \<lparr>ret = Returns (Some ErrPermission), upgraded = False, session = s\<rparr> \<and>
      attach_status ErrPermission = Some 403) \<and>
   (upgraded (Connect s secret up) \<longrightarrow> secret \<in> snd ` set (fds s))"
  by (simp add: Connect_def Connect_range_no_match Connect_range_upgraded attach_status_def)

theorem Connect_unknown_secret_witness:
  "''guess'' \<notin> snd ` set (fds ws_batch) \<and>
   Connect ws_batch ''guess'' (Inr 7) =
     \<lparr>ret = Returns (Some ErrPermission), upgraded = False, session = ws_batch\<rparr> \<and>
   attach_status ErrPermission = Some 403 \<and>
   upgraded (Connect ws_batch ''secret1'' (Inr 7)) \<and> ''secret1'' \<in> snd ` set (fds ws_batch)"
proof -
  have h1: "''guess'' \<notin> snd ` set (fds ws_batch)"
    by (simp add: ws_batch_def)
  have h2: "upgraded (Connect ws_batch ''secret1'' (Inr 7))"
    by (simp add: Connect_def ws_batch_def)
  from h1 Connect_unknown_secret [of "''guess''" ws_batch "Inr 7"]
  have r1: "Connect ws_batch ''guess'' (Inr 7) =
     \<lparr>ret = Returns (Some ErrPermission), upgraded = False, session = ws_batch\<rparr> \<and>
     attach_status ErrPermission = Some 403"
    by blast
  from h2 Connect_unknown_secret [of "''secret1''" ws_batch "Inr 7"]
  have r2: "''secret1'' \<in> snd ` set (fds ws_batch)"
    by blast
  from h1 h2 r1 r2 show ?thesis
    by blast
qed

text \<open>
  C2, as the claim states it, fails: on the batch session that \<open>containerExecPost\<close>
  makes, a first connect with the secret of index 0 attaches connection 1; a second
  connect with the same secret returns nil, not an error, and index 0 then holds
  connection 2.
\<close>

theorem Connect_again_counterexample:
  "map_of (conns (session (Connect ws_batch ''secret1'' (Inr 1)))) 0 = Some (Some 1) \<and>
   ret (Connect (session (Connect ws_batch ''secret1'' (Inr 1))) ''secret1'' (Inr 2)) = Returns None \<and>
   map_of (conns (session (Connect (session (Connect ws_batch ''secret1'' (Inr 1))) ''secret1'' (Inr 2)))) 0
     = Some (Some 2)"
  by (simp add: Connect_def ws_batch_def)

text \<open>
  C2, amended. A connect call whose secret is in the table attaches to one index only,
  the first of the table whose secret is the one presented, and leaves every other index
  as it was, whether or not that index already holds a connection; so a call for an
  index that already has a connection is not refused. If the upgrade succeeds, the new
  connection is the one the index holds afterwards (it takes the place of an old one)
  and the call returns nil or waits at its send on the readiness channel; if the upgrade
  fails, the call returns the upgrade's error and the session is left as it was.
\<close>

theorem Connect_replaces:
  "find (\<lambda>p. snd p = secret) (fds s) = Some (fd, secret) \<longrightarrow>
     Connect s secret (Inl e) =
       \<lparr>ret = Returns (Some (ErrOther e)), upgraded = True, session = s\<rparr> \<and>
     ret (Connect s secret (Inr new)) \<in> {Returns None, WaitsAtSend} \<and>
     map_of (conns (session (Connect s secret (Inr new)))) fd = Some (Some new) \<and>
     (\<forall>i. i \<noteq> fd \<longrightarrow>
        map_of (conns (session (Connect s secret (Inr new)))) i = map_of (conns s) i)"
proof
  assume f: "find (\<lambda>p. snd p = secret) (fds s) = Some (fd, secret)"
  from Connect_range_first [OF f, of s e new]
  show "Connect s secret (Inl e) =
       \<lparr>ret = Returns (Some (ErrOther e)), upgraded = True, session = s\<rparr> \<and>
     ret (Connect s secret (Inr new)) \<in> {Returns None, WaitsAtSend} \<and>
     map_of (conns (session (Connect s secret (Inr new)))) fd = Some (Some new) \<and>
     (\<forall>i. i \<noteq> fd \<longrightarrow>
        map_of (conns (session (Connect s secret (Inr new)))) i = map_of (conns s) i)"
    by (simp add: Connect_def update_conv')
qed

theorem Connect_replaces_witness:
  "find (\<lambda>p. snd p = ''secret1'') (fds (ws_batch\<lparr>conns := [(- 1, None), (0, Some 1), (1, None), (2, None)]\<rparr>))
     = Some (0, ''secret1'') \<and>
   map_of (conns (ws_batch\<lparr>conns := [(- 1, None), (0, Some 1), (1, None), (2, None)]\<rparr>)) 0
     = Some (Some 1) \<and>
   Connect (ws_batch\<lparr>conns := [(- 1, None), (0, Some 1), (1, None), (2, None)]\<rparr>) ''secret1''
       (Inl ''bad handshake'') =
     \<lparr>ret = Returns (Some (ErrOther ''bad handshake'')), upgraded = True,
      session = ws_batch\<lparr>conns := [(- 1, None), (0, Some 1), (1, None), (2, None)]\<rparr>\<rparr> \<and>
   map_of (conns (session (Connect (ws_batch\<lparr>conns := [(- 1, None), (0, Some 1), (1, None), (2, None)]\<rparr>)
       ''secret1'' (Inr 2)))) 0 = Some (Some 2) \<and>
   map_of (conns (session (Connect (ws_batch\<lparr>conns := [(- 1, None), (0, Some 1), (1, None), (2, None)]\<rparr>)
       ''secret1'' (Inr 2)))) 1 = Some None \<and>
   find (\<lambda>p. snd p = ''secret2'') (fds ws_batch) = Some (1, ''secret2'') \<and>
   map_of (conns (session (Connect ws_batch ''secret2'' (Inr 3)))) 1 = Some (Some 3) \<and>
   map_of (conns (session (Connect ws_batch ''secret2'' (Inr 3)))) 0 = Some None"
proof -
  let ?s = "ws_batch\<lparr>conns := [(- 1, None), (0, Some 1), (1, None), (2, None)]\<rparr>"
  have h1: "find (\<lambda>p. snd p = ''secret1'') (fds ?s) = Some (0, ''secret1'')"
    by (simp add: ws_batch_def)
  have h2: "map_of (conns ?s) 0 = Some (Some 1)"
    by simp
  have h3: "map_of (conns ?s) 1 = Some None"
    by simp
  from h1 Connect_replaces [of "''secret1''" ?s 0 "''bad handshake''" 2]
  have r: "Connect ?s ''secret1'' (Inl ''bad handshake'') =
       \<lparr>ret = Returns (Some (ErrOther ''bad handshake'')), upgraded = True, session = ?s\<rparr> \<and>
     map_of (conns (session (Connect ?s ''secret1'' (Inr 2)))) 0 = Some (Some 2) \<and>
     (\<forall>i. i \<noteq> 0 \<longrightarrow> map_of (conns (session (Connect ?s ''secret1'' (Inr 2)))) i = map_of (conns ?s) i)"
    by blast
  then have r1: "map_of (conns (session (Connect ?s ''secret1'' (Inr 2)))) 1 = map_of (conns ?s) 1"
    by simp
  have g1: "find (\<lambda>p. snd p = ''secret2'') (fds ws_batch) = Some (1, ''secret2'')"
    by (simp add: ws_batch_def)
  have g2: "map_of (conns ws_batch) 0 = Some None"
    by (simp add: ws_batch_def)
  from g1 Connect_replaces [of "''secret2''" ws_batch 1 "''bad handshake''" 3]
  have q: "map_of (conns (session (Connect ws_batch ''secret2'' (Inr 3)))) 1 = Some (Some 3) \<and>
     (\<forall>i. i \<noteq> 1 \<longrightarrow> map_of (conns (session (Connect ws_batch ''secret2'' (Inr 3)))) i =
        map_of (conns ws_batch) i)"
    by blast
  then have q1: "map_of (conns (session (Connect ws_batch ''secret2'' (Inr 3)))) 0 = map_of (conns ws_batch) 0"
    by simp
  from h1 h2 h3 r r1 g1 g2 q q1 show ?thesis
    by simp
qed

section \<open>Properties of the exec handler\<close>

lemma is_BadRequest_simps [simp]:
  "is_BadRequest (BadRequest e)" "\<not> is_BadRequest (SmartError e)" "\<not> is_BadRequest (InternalError e)"
  "\<not> is_BadRequest (AsyncResponseWithWs w)" "\<not> is_BadRequest (AsyncResponse cmd opts)"
  by (simp_all add: is_BadRequest_def)




section \<open>The advertised metadata\<close>

lemma digit_val_digit_char: "d < 10 \<Longrightarrow> digit_val (digit_char d) = Some d"
proof -
  assume "d < 10"
  then have "d \<in> {0, 1, 2, 3, 4, 5, 6, 7, 8, 9}" by auto
  then show ?thesis
    by (auto simp add: digit_val_def digit_char_def upt_rec)
qed

lemma digit_char_in: "d < 10 \<Longrightarrow> digit_char d \<in> set ''0123456789''"
  unfolding digit_char_def by (rule nth_mem) simp

lemma ParseUint_append:
  "ParseUint (xs @ ys) n =
     (case ParseUint xs n of Inl e \<Rightarrow> Inl e | Inr a \<Rightarrow> ParseUint ys a)"
  by (induction xs arbitrary: n) (auto split: option.splits)

lemma ParseUint_digit:
  "d < 10 \<Longrightarrow> 0 \<le> n \<Longrightarrow> 10 * n + int d < 2 ^ 64 \<Longrightarrow>
   ParseUint [digit_char d] n = Inr (10 * n + int d)"
  by (simp add: digit_val_digit_char)


lemma ParseUint_error: "ParseUint cs n = Inl e \<Longrightarrow> e = ErrSyntax \<or> e = ErrRange"
proof (induction cs arbitrary: n)
  case Nil
  then show ?case by simp
next
  case (Cons c cs)
  show ?case
  proof (cases "digit_val c")
    case None
    with Cons.prems show ?thesis by simp
  next
    case (Some d)
    show ?thesis
    proof (cases "(2 ^ 64 - 1) div 10 + 1 \<le> n \<or> 2 ^ 64 - 1 < 10 * n + int d")
      case True
      with Some Cons.prems show ?thesis by (simp del: power_numeral)
    next
      case False
      with Some Cons.prems have "ParseUint cs (10 * n + int d) = Inl e" by (simp del: power_numeral)
      then show ?thesis by (rule Cons.IH)
    qed
  qed
qed


lemma ParseUint_digits: "int n < 2 ^ 64 \<Longrightarrow> ParseUint (digits n) 0 = Inr (int n)"
proof (induction n rule: digits.induct)
  case (1 n)
  show ?case
  proof (cases "n < 10")
    case True
    then show ?thesis
      using ParseUint_digit [of n 0] "1.prems" by (simp add: digits.simps [of n])
  next
    case False
    have e: "10 * int (n div 10) + int (n mod 10) = int n"
      by (simp add: zdiv_int zmod_int)
    with "1.prems" have "int (n div 10) < 2 ^ 64" by linarith
    with 1 False have a: "ParseUint (digits (n div 10)) 0 = Inr (int (n div 10))" by simp
    have "ParseUint [digit_char (n mod 10)] (int (n div 10)) = Inr (10 * int (n div 10) + int (n mod 10))"
      using "1.prems" e by (intro ParseUint_digit) simp_all
    with a e show ?thesis
      using False by (simp add: digits.simps [of n] ParseUint_append)
  qed
qed

lemma digits_set: "set (digits n) \<subseteq> set ''0123456789''"
proof (induction n rule: digits.induct)
  case (1 n)
  show ?case
  proof (cases "n < 10")
    case True
    then show ?thesis using digit_char_in [of n] by (simp add: digits.simps [of n])
  next
    case False
    with 1 have "set (digits (n div 10)) \<subseteq> set ''0123456789''" by simp
    moreover have "digit_char (n mod 10) \<in> set ''0123456789''" by (rule digit_char_in) simp
    ultimately show ?thesis using False by (simp add: digits.simps [of n])
  qed
qed

lemma digits_nonempty: "digits n \<noteq> []"
  by (subst digits.simps) simp

lemma hd_digits: "hd (digits n) \<in> set ''0123456789''"
  using digits_set [of n] digits_nonempty [of n] by (meson hd_in_set subsetD)

lemma Atoi_Itoa: "is_int64 i \<Longrightarrow> Atoi (Itoa i) = Inr i"
proof (cases "i < 0")
  case True
  assume r: "is_int64 i"
  have "hd (digits (nat (- i))) \<noteq> CHR ''-''" using hd_digits [of "nat (- i)"] by auto
  with True r show ?thesis
    by (auto simp add: Atoi_def Itoa_def Let_def digits_nonempty ParseUint_digits is_int64_def del: power_numeral)
next
  case False
  assume r: "is_int64 i"
  have "hd (digits (nat i)) \<noteq> CHR ''-''" "hd (digits (nat i)) \<noteq> CHR ''+''"
    using hd_digits [of "nat i"] by auto
  with False r show ?thesis
    by (auto simp add: Atoi_def Itoa_def Let_def digits_nonempty ParseUint_digits is_int64_def del: power_numeral)
qed

lemma Itoa_not_control: "Itoa i \<noteq> ''control''"
proof
  assume a: "Itoa i = ''control''"
  then have "hd (Itoa i) = CHR ''c''" by simp
  moreover have "hd (Itoa i) \<in> set ''-0123456789''"
    using hd_digits [of "nat i"] hd_digits [of "nat (- i)"] by (auto simp add: Itoa_def)
  ultimately show False by auto
qed

lemma update_fresh: "k \<notin> fst ` set al \<Longrightarrow> AList.update k v al = al @ [(k, v)]"
  by (induction al) auto

lemma fd_key_inj: "is_int64 i \<Longrightarrow> is_int64 j \<Longrightarrow> fd_key i = fd_key j \<Longrightarrow> i = j"
proof -
  assume i: "is_int64 i" and j: "is_int64 j" and e: "fd_key i = fd_key j"
  show "i = j"
  proof (cases "i = -1 \<or> j = -1")
    case True
    with e Itoa_not_control [of i] Itoa_not_control [of j] show ?thesis
      by (auto simp add: fd_key_def split: if_splits)
  next
    case False
    with e have "Itoa i = Itoa j" by (simp add: fd_key_def)
    then have "Atoi (Itoa i) = Atoi (Itoa j)" by simp
    with i j show ?thesis by (simp add: Atoi_Itoa)
  qed
qed

lemma Metadata_range_step:
  "Metadata_range ((fd, secret) # rest) acc = Metadata_range rest (AList.update (fd_key fd) secret acc)"
  by (simp add: fd_key_def)

lemma Metadata_range_append:
  "distinct (map fst xs) \<Longrightarrow> \<forall>fd \<in> fst ` set xs. is_int64 fd \<Longrightarrow>
   \<forall>fd \<in> fst ` set xs. fd_key fd \<notin> fst ` set acc \<Longrightarrow>
   Metadata_range xs acc = acc @ map (\<lambda>(fd, secret). (fd_key fd, secret)) xs"
proof (induction xs arbitrary: acc)
  case Nil
  show ?case by simp
next
  case (Cons p xs)
  obtain fd secret where p: "p = (fd, secret)" by (cases p)
  have fresh: "fd_key fd \<notin> fst ` set acc"
    using Cons.prems(3) p by simp
  have d: "distinct (map fst xs)" and r: "\<forall>k \<in> fst ` set xs. is_int64 k"
    using Cons.prems p by auto
  have "\<forall>k \<in> fst ` set xs. fd_key k \<notin> fst ` set (acc @ [(fd_key fd, secret)])"
  proof
    fix k assume k: "k \<in> fst ` set xs"
    then have "k \<noteq> fd" using Cons.prems(1) p by auto
    moreover have "is_int64 k" "is_int64 fd" using Cons.prems(2) k p by auto
    ultimately have "fd_key k \<noteq> fd_key fd" using fd_key_inj by blast
    moreover have "fd_key k \<notin> fst ` set acc" using Cons.prems(3) k by auto
    ultimately show "fd_key k \<notin> fst ` set (acc @ [(fd_key fd, secret)])" by simp
  qed
  from Cons.IH [OF d r this] fresh show ?case
    unfolding p Metadata_range_step by (simp add: update_fresh)
qed

lemma decode_fds_step:
  "is_int64 fd \<Longrightarrow>
   decode_fds ((fd_key fd, secret) # rest) acc = decode_fds rest (AList.update fd secret acc)"
  by (simp add: fd_key_def Itoa_not_control Atoi_Itoa)

lemma decode_fds_append:
  "distinct (map fst xs) \<Longrightarrow> \<forall>fd \<in> fst ` set xs. is_int64 fd \<Longrightarrow>
   fst ` set xs \<inter> fst ` set acc = {} \<Longrightarrow>
   decode_fds (map (\<lambda>(fd, secret). (fd_key fd, secret)) xs) acc = acc @ xs"
proof (induction xs arbitrary: acc)
  case Nil
  show ?case by simp
next
  case (Cons p xs)
  obtain fd secret where p: "p = (fd, secret)" by (cases p)
  have fresh: "fd \<notin> fst ` set acc" and i: "is_int64 fd"
    using Cons.prems p by auto
  have d: "distinct (map fst xs)" and r: "\<forall>k \<in> fst ` set xs. is_int64 k"
    using Cons.prems p by auto
  have "fst ` set xs \<inter> fst ` set (acc @ [(fd, secret)]) = {}"
    using Cons.prems(1,3) p by auto
  from Cons.IH [OF d r this] fresh i show ?case
    unfolding p by (simp del: decode_fds.simps add: decode_fds_step update_fresh)
qed

lemma Metadata_encoded:
  assumes "distinct (map fst (fds s))" and "\<forall>fd \<in> fst ` set (fds s). is_int64 fd"
  shows "Metadata s = [(''fds'', map (\<lambda>(fd, secret). (fd_key fd, secret)) (fds s))]"
  using Metadata_range_append [OF assms, of "[]"] by (simp add: Metadata_def)

lemma Metadata_decoded:
  assumes "distinct (map fst (fds s))" and "\<forall>fd \<in> fst ` set (fds s). is_int64 fd"
  shows "decode_Metadata (Metadata s) = fds s"
  using decode_fds_append [OF assms, of "[]"]
  by (simp add: decode_Metadata_def Metadata_encoded [OF assms])

lemma fds_loop_interactive: "fds_loop rnd 2 (-1) [] = Inr f \<Longrightarrow> map fst f = [-1, 0]"
  by (auto simp add: fds_loop.simps [of _ 2] split: sum.splits)

lemma fds_loop_batch: "fds_loop rnd 4 (-1) [] = Inr f \<Longrightarrow> map fst f = [-1, 0, 1, 2]"
  by (auto simp add: fds_loop.simps [of _ 4] split: sum.splits)

lemma created_fds:
  "containerExecPost d nm body = AsyncResponseWithWs s \<Longrightarrow>
   map fst (fds s) = (if interactive s then [-1, 0] else [-1, 0, 1, 2])"
  by (auto simp add: containerExecPost_def Let_def new_conns_def
      split: sum.splits if_splits dest: fds_loop_interactive fds_loop_batch)

lemma created_ids:
  "newLxdContainer d nm = Inr c \<Longrightarrow> containerExecPost d nm body = AsyncResponseWithWs s \<Longrightarrow>
   (rootUid s, rootGid s) = (case idmapset c of None \<Rightarrow> (0, 0) | Some shift \<Rightarrow> shift 0 0)"
  by (auto simp add: containerExecPost_def Let_def split: sum.splits if_splits)

lemma fd_key_values:
  "fd_key (-1) = ''control''" "fd_key 0 = ''0''" "fd_key 1 = ''1''" "fd_key 2 = ''2''"
  by (simp_all add: fd_key_def Itoa_def digits_small digit_char_def)

text \<open>
  C6. For a session whose \<open>fds\<close> table is a Go map of ints (distinct keys, each a 64-bit
  int), the advertised metadata holds, under the key \<open>fds\<close>, one entry per index: under
  \<open>control\<close> for the index -1 and under the decimal string of \<open>i\<close> for any other index
  \<open>i\<close>; and decoding it gives back the table. The session that \<open>containerExecPost\<close> makes
  has such a table, and its metadata has the keys \<open>control\<close> and \<open>0\<close> only in
  interactive mode, and \<open>control\<close>, \<open>0\<close>, \<open>1\<close> and \<open>2\<close> in batch mode.
\<close>

theorem Metadata_roundtrip:
  "(distinct (map fst (fds s)) \<and> (\<forall>fd \<in> fst ` set (fds s). is_int64 fd) \<longrightarrow>
      Metadata s =
        [(''fds'', map (\<lambda>(fd, secret). (if fd = -1 then ''control'' else Itoa fd, secret)) (fds s))] \<and>
      decode_Metadata (Metadata s) = fds s) \<and>
   (containerExecPost d nm body = AsyncResponseWithWs s \<longrightarrow>
      distinct (map fst (fds s)) \<and> (\<forall>fd \<in> fst ` set (fds s). is_int64 fd) \<and>
      (interactive s \<longrightarrow>
         map (\<lambda>(k, m). (k, map fst m)) (Metadata s) = [(''fds'', [''control'', ''0''])]) \<and>
      (\<not> interactive s \<longrightarrow>
         map (\<lambda>(k, m). (k, map fst m)) (Metadata s) = [(''fds'', [''control'', ''0'', ''1'', ''2''])]))"
proof (intro conjI impI)
  assume a: "distinct (map fst (fds s)) \<and> (\<forall>fd \<in> fst ` set (fds s). is_int64 fd)"
  then show "Metadata s =
        [(''fds'', map (\<lambda>(fd, secret). (if fd = -1 then ''control'' else Itoa fd, secret)) (fds s))]"
    using Metadata_encoded [of s] by (simp add: fd_key_def)
  from a show "decode_Metadata (Metadata s) = fds s"
    using Metadata_decoded [of s] by simp
next
  assume r: "containerExecPost d nm body = AsyncResponseWithWs s"
  note k = created_fds [OF r]
  have "set (map fst (fds s)) \<subseteq> {-1, 0, 1, 2}"
    unfolding k by simp
  then have i: "\<forall>fd \<in> fst ` set (fds s). is_int64 fd"
    by (auto simp add: is_int64_def)
  show d: "distinct (map fst (fds s))"
    unfolding k by simp
  from i show "\<forall>fd \<in> fst ` set (fds s). is_int64 fd" .
  have m: "map (\<lambda>(k, m). (k, map fst m)) (Metadata s) = [(''fds'', map fd_key (map fst (fds s)))]"
    unfolding Metadata_encoded [OF d i] by (simp add: case_prod_beta comp_def)
  {
    assume "interactive s"
    with m k show "map (\<lambda>(k, m). (k, map fst m)) (Metadata s) = [(''fds'', [''control'', ''0''])]"
      by (simp add: fd_key_values)
  }
  {
    assume "\<not> interactive s"
    with m k show "map (\<lambda>(k, m). (k, map fst m)) (Metadata s) = [(''fds'', [''control'', ''0'', ''1'', ''2''])]"
      by (simp add: fd_key_values)
  }
qed

theorem Metadata_roundtrip_witness:
  "distinct (map fst (fds ws_batch)) \<and> list_all is_int64 (map fst (fds ws_batch)) \<and>
   Metadata ws_batch =
     [(''fds'', [(''control'', ''secret0''), (''0'', ''secret1''), (''1'', ''secret2''),
                (''2'', ''secret3'')])] \<and>
   decode_Metadata (Metadata ws_batch) =
     [(- 1, ''secret0''), (0, ''secret1''), (1, ''secret2''), (2, ''secret3'')] \<and>
   containerExecPost world0 ''c1'' (Inr body_batch) = AsyncResponseWithWs ws_batch \<and>
   \<not> interactive ws_batch \<and>
   map (\<lambda>(k, m). (k, map fst m)) (Metadata ws_batch) = [(''fds'', [''control'', ''0'', ''1'', ''2''])] \<and>
   containerExecPost world0 ''c1'' (Inr body_pty) = AsyncResponseWithWs ws_pty \<and>
   interactive ws_pty \<and>
   map (\<lambda>(k, m). (k, map fst m)) (Metadata ws_pty) = [(''fds'', [''control'', ''0''])]"
proof -
  have f: "fds ws_batch = [(- 1, ''secret0''), (0, ''secret1''), (1, ''secret2''), (2, ''secret3'')]"
    by (simp add: ws_batch_def)
  have h1: "distinct (map fst (fds ws_batch))"
    unfolding f by simp
  have h2: "list_all is_int64 (map fst (fds ws_batch))"
    unfolding f by (simp add: is_int64_def)
  then have h2': "\<forall>fd \<in> fst ` set (fds ws_batch). is_int64 fd"
    by (simp add: list_all_iff)
  have nb: "\<not> interactive ws_batch" and ip: "interactive ws_pty"
    by (simp_all add: ws_batch_def ws_pty_def)
  from h1 h2' Metadata_roundtrip [of ws_batch world0 "''c1''" "Inr body_batch"]
  have r1: "Metadata ws_batch =
        [(''fds'', map (\<lambda>(fd, secret). (if fd = -1 then ''control'' else Itoa fd, secret)) (fds ws_batch))] \<and>
      decode_Metadata (Metadata ws_batch) = fds ws_batch"
    by blast
  from ws_batch_created nb Metadata_roundtrip [of ws_batch world0 "''c1''" "Inr body_batch"]
  have r2: "map (\<lambda>(k, m). (k, map fst m)) (Metadata ws_batch) = [(''fds'', [''control'', ''0'', ''1'', ''2''])]"
    by blast
  from ws_pty_created ip Metadata_roundtrip [of ws_pty world0 "''c1''" "Inr body_pty"]
  have r3: "map (\<lambda>(k, m). (k, map fst m)) (Metadata ws_pty) = [(''fds'', [''control'', ''0''])]"
    by blast
  have e: "map (\<lambda>(fd, secret). (if fd = -1 then ''control'' else Itoa fd, secret)) (fds ws_batch) =
      [(''control'', ''secret0''), (''0'', ''secret1''), (''1'', ''secret2''), (''2'', ''secret3'')]"
    unfolding f by (simp add: Itoa_def digits_small digit_char_def)
  from r1 have r1a: "Metadata ws_batch =
     [(''fds'', [(''control'', ''secret0''), (''0'', ''secret1''), (''1'', ''secret2''),
                (''2'', ''secret3'')])]"
    unfolding e by simp
  from r1 have q: "decode_Metadata (Metadata ws_batch) = fds ws_batch"
    by (rule conjunct2)
  have r1b: "decode_Metadata (Metadata ws_batch) =
     [(- 1, ''secret0''), (0, ''secret1''), (1, ''secret2''), (2, ''secret3'')]"
    unfolding q f by (rule refl)
  from h1 h2 r1a r1b ws_batch_created nb r2 ws_pty_created ip r3 show ?thesis
    by blast
qed

section \<open>Properties of the runs of an exec session\<close>

lemma pty_inv_step: "pty_inv uid gid st \<Longrightarrow> Do_step e st = Some st' \<Longrightarrow> pty_inv uid gid st'"
proof (cases e)
  case (Attach secret up)
  assume "pty_inv uid gid st" "Do_step e st = Some st'"
  with Attach show ?thesis
    using Connect_range_frame [of "fds (ws st)" "ws st" secret up]
    by (auto simp add: pty_inv_def Connect_def)
qed (auto simp add: pty_inv_def split: if_splits Do_pc.splits)

lemma pty_inv_run: "Do_run evs st = Some st' \<Longrightarrow> pty_inv uid gid st \<Longrightarrow> pty_inv uid gid st'"
proof (induction evs arbitrary: st)
  case Nil
  then show ?case by simp
next
  case (Cons e evs)
  then show ?case by (auto split: option.splits dest: pty_inv_step)
qed

text \<open>
  C10. An interactive session made for a container with no idmap set has \<open>rootUid\<close> and
  \<open>rootGid\<close> 0, and in every run of \<open>Do\<close> on it, alongside any connect calls, the calls
  that allocate its stdio are none before the pty is allocated and, from then on, the
  one call \<open>OpenPty 0 0\<close>: the pty is asked for the owner uid 0 and gid 0.
\<close>

theorem interactive_pty_owner:
  "newLxdContainer d nm = Inr c \<and> idmapset c = None \<and>
   containerExecPost d nm body = AsyncResponseWithWs s \<and> interactive s \<longrightarrow>
     rootUid s = 0 \<and> rootGid s = 0 \<and>
     (\<forall>evs st. Do_run evs (Do_init s) = Some st \<longrightarrow>
        calls st = (if pc st \<in> {AtAllConnected, AtStdio} then [] else [OpenPty 0 0]))"
proof (intro impI, elim conjE)
  assume c: "newLxdContainer d nm = Inr c" and n: "idmapset c = None"
    and r: "containerExecPost d nm body = AsyncResponseWithWs s" and i: "interactive s"
  from created_ids [OF c r] n have ids: "rootUid s = 0" "rootGid s = 0" by simp_all
  with i have "pty_inv 0 0 (Do_init s)" by (simp add: pty_inv_def Do_init_def)
  then have "\<forall>evs st. Do_run evs (Do_init s) = Some st \<longrightarrow> pty_inv 0 0 st"
    using pty_inv_run by blast
  with ids show "rootUid s = 0 \<and> rootGid s = 0 \<and>
     (\<forall>evs st. Do_run evs (Do_init s) = Some st \<longrightarrow>
        calls st = (if pc st \<in> {AtAllConnected, AtStdio} then [] else [OpenPty 0 0]))"
    by (simp add: pty_inv_def)
qed

lemma run_pty:
  "Do_run [Attach ''secret1'' (Inr 5), RecvAllConnected, Stdio []] (Do_init ws_pty) =
     Some \<lparr>ws = ws_pty\<lparr>conns := [(- 1, None), (0, Some 5)]\<rparr>, pc = AtRunCommand,
           calls = [OpenPty 0 0], bridges = [], reader = AtSelect\<rparr>"
  by (simp add: Do_init_def ws_pty_def Connect_def)

theorem interactive_pty_owner_witness:
  "newLxdContainer world0 ''c1'' = Inr c1 \<and> idmapset c1 = None \<and>
   containerExecPost world0 ''c1'' (Inr body_pty) = AsyncResponseWithWs ws_pty \<and>
   interactive ws_pty \<and> rootUid ws_pty = 0 \<and> rootGid ws_pty = 0 \<and>
   map_option pc (Do_run [Attach ''secret1'' (Inr 5), RecvAllConnected, Stdio []] (Do_init ws_pty))
     = Some AtRunCommand \<and>
   map_option calls (Do_run [Attach ''secret1'' (Inr 5), RecvAllConnected, Stdio []] (Do_init ws_pty))
     = Some [OpenPty 0 0]"
proof -
  let ?evs = "[Attach ''secret1'' (Inr 5), RecvAllConnected, Stdio []]"
  let ?st = "\<lparr>ws = ws_pty\<lparr>conns := [(- 1, None), (0, Some 5)]\<rparr>, pc = AtRunCommand,
           calls = [OpenPty 0 0], bridges = [], reader = AtSelect\<rparr>"
  have h: "newLxdContainer world0 ''c1'' = Inr c1 \<and> idmapset c1 = None \<and> interactive ws_pty"
    by (simp add: world0_def c1_def ws_pty_def)
  from h ws_pty_created interactive_pty_owner [of world0 "''c1''" c1 "Inr body_pty" ws_pty]
  have r: "rootUid ws_pty = 0 \<and> rootGid ws_pty = 0 \<and>
     (\<forall>evs st. Do_run evs (Do_init ws_pty) = Some st \<longrightarrow>
        calls st = (if pc st \<in> {AtAllConnected, AtStdio} then [] else [OpenPty 0 0]))"
    by blast
  then have "calls ?st = (if pc ?st \<in> {AtAllConnected, AtStdio} then [] else [OpenPty 0 0])"
    using run_pty by blast
  then have c: "map_option calls (Do_run ?evs (Do_init ws_pty)) = Some [OpenPty 0 0]"
    unfolding run_pty by simp
  have p: "map_option pc (Do_run ?evs (Do_init ws_pty)) = Some AtRunCommand"
    unfolding run_pty by simp
  from h ws_pty_created r c p show ?thesis
    by blast
qed

text \<open>
  C1 fails on the code. On the batch session above: the three stdio websockets attach,
  \<open>Do\<close> allocates its pipes and starts its goroutines, the command exits with status 0,
  the stdout bridge (goroutine 1) ends and sends on \<open>stdEOF\<close>, \<open>Do\<close> receives that one
  value, closes everything and returns \<open>{"return": 0}\<close>, while the stderr bridge
  (goroutine 2) still runs.
\<close>

theorem Do_returns_before_second_bridge:
  "map_option (\<lambda>st. (pc st, bridges st))
     (Do_run [Attach ''secret1'' (Inr 10), Attach ''secret2'' (Inr 11), Attach ''secret3'' (Inr 12),
              RecvAllConnected, Stdio [], CommandReturns (Inr 0), StreamEnds 1, RecvStdEOF 1,
              CloseAll] (Do_init ws_batch))
   = Some (Returned (OperationReturn 0), [Streaming, Finished, Streaming])"
  by (simp add: Do_init_def ws_batch_def Connect_def runCommand_def numeral_3_eq_3)


lemma three_cases: "i < (3::nat) \<Longrightarrow> i = 0 \<or> i = 1 \<or> i = 2"
  by auto

lemma length_three: "length xs = 3 \<Longrightarrow> \<exists>a b c. xs = [a, b, c]"
  by (cases xs; simp) (metis (no_types) length_0_conv length_Suc_conv numeral_2_eq_2)

lemma batch_inv_frame:
  "interactive (ws st') = interactive (ws st) \<Longrightarrow> bridges st' = bridges st \<Longrightarrow> pc st' = pc st \<Longrightarrow>
   batch_inv st' = batch_inv st"
  by (simp add: batch_inv_def passed_send_def cong: Do_pc.case_cong)

lemma batch_inv_step: "batch_inv st \<Longrightarrow> Do_step e st = Some st' \<Longrightarrow> batch_inv st'"
proof (cases e)
  case (Attach secret up)
  assume "batch_inv st" "Do_step e st = Some st'"
  with Attach have s: "st' = st\<lparr>ws := session (Connect (ws st) secret up)\<rparr>"
    by simp
  have "interactive (ws st') = interactive (ws st)"
    unfolding s using Connect_range_frame [of "fds (ws st)" "ws st" secret up]
    by (simp add: Connect_def)
  moreover have "bridges st' = bridges st" "pc st' = pc st"
    unfolding s by simp_all
  ultimately have "batch_inv st' = batch_inv st"
    by (rule batch_inv_frame)
  with \<open>batch_inv st\<close> show ?thesis
    by simp
next
  case (StreamEnds i)
  assume a: "batch_inv st" "Do_step e st = Some st'"
  with StreamEnds have i: "i < length (bridges st)" "bridges st ! i = Streaming"
    and s: "st' = st\<lparr>bridges := (bridges st)[i := (if i = 0 then Finished else AtSend)]\<rparr>"
    by (auto split: if_splits)
  from a(1) i(1) have "length (bridges st) = 3"
    by (auto simp add: batch_inv_def split: Do_pc.splits)
  then obtain a b c where b: "bridges st = [a, b, c]"
    using length_three by blast
  with i have "i = 0 \<or> i = 1 \<or> i = 2" by (auto intro: three_cases)
  with a(1) i(2) b show ?thesis
    unfolding s by (auto simp add: batch_inv_def passed_send_def split: Do_pc.splits if_splits)
next
  case (RecvStdEOF i)
  assume a: "batch_inv st" "Do_step e st = Some st'"
  with RecvStdEOF obtain r where p: "pc st = AtStdEOF r" and i: "i < length (bridges st)" "bridges st ! i = AtSend"
    and s: "st' = st\<lparr>bridges := (bridges st)[i := Finished], pc := AtClose r\<rparr>"
    by (auto split: if_splits Do_pc.splits)
  from a(1) p have "length (bridges st) = 3"
    by (auto simp add: batch_inv_def)
  then obtain a b c where b: "bridges st = [a, b, c]"
    using length_three by blast
  with i have "i = 0 \<or> i = 1 \<or> i = 2" by (auto intro: three_cases)
  with a(1) i(2) b p show ?thesis
    unfolding s by (auto simp add: batch_inv_def passed_send_def split: if_splits Do_pc.splits)
next
  case (Stdio errs)
  assume a: "batch_inv st" "Do_step e st = Some st'"
  with Stdio show ?thesis
    by (auto simp add: batch_inv_def passed_send_def split: if_splits prod.splits option.splits Do_pc.splits)
next
  case RecvAllConnected
  assume a: "batch_inv st" "Do_step e st = Some st'"
  with RecvAllConnected have "pc st = AtAllConnected"
    and "st' = st\<lparr>ws := (ws st)\<lparr>allConnected := allConnected (ws st) - 1\<rparr>, pc := AtStdio\<rparr>"
    by (auto split: if_splits)
  with a(1) show ?thesis by (simp add: batch_inv_def passed_send_def)
next
  case (CommandReturns r)
  assume a: "batch_inv st" "Do_step e st = Some st'"
  with CommandReturns have "pc st = AtRunCommand"
    and "st' = st\<lparr>pc := (if interactive (ws st) then AtClose (runCommand r) else AtStdEOF (runCommand r))\<rparr>"
    by (auto split: if_splits)
  with a(1) show ?thesis by (simp add: batch_inv_def passed_send_def)
next
  case CloseAll
  assume a: "batch_inv st" "Do_step e st = Some st'"
  with CloseAll obtain r where p: "pc st = AtClose r"
    by (auto split: Do_pc.splits)
  from a(1) have "\<not> interactive (ws st)" by (simp add: batch_inv_def)
  with a(2) CloseAll p have "st' = st\<lparr>pc := Returned r\<rparr>" by simp
  with a(1) p show ?thesis by (simp add: batch_inv_def passed_send_def)
next
  case SendControlExit
  assume a: "batch_inv st" "Do_step e st = Some st'"
  with SendControlExit obtain r where "pc st = AtControlExit r"
    by (auto split: Do_pc.splits)
  with a(1) show ?thesis by (simp add: batch_inv_def)
next
  case ReaderAttached
  assume a: "batch_inv st" "Do_step e st = Some st'"
  with ReaderAttached have
    "st' = st\<lparr>ws := (ws st)\<lparr>controlConnected := controlConnected (ws st) - 1\<rparr>, reader := Reading\<rparr>"
    by (auto split: if_splits)
  then have "batch_inv st' = batch_inv st"
    by (intro batch_inv_frame) simp_all
  with a(1) show ?thesis by simp
next
  case ReaderEnds
  assume a: "batch_inv st" "Do_step e st = Some st'"
  with ReaderEnds have "st' = st\<lparr>reader := Gone\<rparr>"
    by (auto split: if_splits)
  then have "batch_inv st' = batch_inv st"
    by (intro batch_inv_frame) simp_all
  with a(1) show ?thesis by simp
qed

lemma batch_inv_run: "Do_run evs st = Some st' \<Longrightarrow> batch_inv st \<Longrightarrow> batch_inv st'"
proof (induction evs arbitrary: st)
  case Nil
  then show ?case by simp
next
  case (Cons e evs)
  then show ?case by (auto split: option.splits dest: batch_inv_step)
qed

text \<open>
  In every run of \<open>Do\<close> on a batch session that returns after the pipes were
  allocated, exactly one of the two output goroutines has passed its send on \<open>stdEOF\<close>:
  \<open>Do\<close> waits for one bridge, and the other one is still running or waits at its send.
\<close>

lemma Do_batch_one_receive:
  assumes "\<not> interactive s" and "Do_run evs (Do_init s) = Some st" and "pc st = Returned r"
    and "bridges st \<noteq> []"
  shows "passed_send st = 1"
proof -
  from assms(1) have "batch_inv (Do_init s)"
    by (simp add: batch_inv_def Do_init_def)
  with assms(2) have "batch_inv st" by (rule batch_inv_run)
  with assms(3,4) show ?thesis by (simp add: batch_inv_def)
qed

section \<open>Properties of the resolver\<close>

lemma containers_range_skip:
  "\<forall>x \<in> set pre. loads_other pr d ns x \<Longrightarrow>
   containers_range pr d ns (pre @ rest) = containers_range pr d ns rest"
  by (induction pre) (auto simp: loads_other_def split: sum.splits)

lemma containers_range_none:
  "containers_range pr d ns cs = Inl pidNotInContainerErr \<longleftrightarrow> (\<forall>x \<in> set cs. loads_other pr d ns x)"
  by (induction cs) (auto simp: loads_other_def split: sum.splits)

lemma containers_range_fails:
  "load_fails pr d cn e \<Longrightarrow> containers_range pr d ns (cn # post) = Inl (ErrOther e)"
  by (auto simp: load_fails_def split: sum.splits)

lemma loop_chain:
  "walk_chain pr (p # ps) \<Longrightarrow> length ps \<le> fuel \<Longrightarrow>
   findContainerForPid_loop fuel pr d og p =
     findContainerForPid_loop (fuel - length ps) pr d og (last (p # ps))"
proof (induction ps arbitrary: p fuel)
  case Nil
  show ?case by simp
next
  case (Cons q qs)
  from Cons.prems(2) obtain f where f: "fuel = Suc f" and l: "length qs \<le> f"
    by (cases fuel) auto
  from Cons.prems(1) have p: "1 < p" "no_monitor pr p" "parent pr p = Some q" and w: "walk_chain pr (q # qs)"
    by simp_all
  from p have "findContainerForPid_loop (Suc f) pr d og p = findContainerForPid_loop f pr d og q"
    by (auto simp add: no_monitor_def parent_def split: sum.splits option.splits)
  with Cons.IH [OF w l] f show ?case by simp
qed

lemma Atoi_error: "Atoi s = Inl e \<Longrightarrow> e = ErrSyntax \<or> e = ErrRange"
  by (auto simp add: Atoi_def Let_def simp del: power_numeral split: if_splits sum.splits
      dest: ParseUint_error)

lemma status_range_error: "status_range ls = Some (Inl e) \<Longrightarrow> e = ErrSyntax \<or> e = ErrRange"
  by (induction ls) (auto split: option.splits if_splits sum.splits dest: Atoi_error)

lemma loop_not_in_container:
  "findContainerForPid_loop fuel pr d og p = Some (Inl pidNotInContainerErr) \<Longrightarrow>
   pidns_lookup pr d og = Inl pidNotInContainerErr"
proof (induction fuel arbitrary: p)
  case 0
  then show ?case by (simp split: if_splits)
next
  case (Suc fuel)
  then show ?case
    by (auto split: if_splits sum.splits option.splits dest: status_range_error)
qed


lemma loop_top:
  "p \<le> 1 \<Longrightarrow> findContainerForPid_loop fuel pr d og p = Some (pidns_lookup pr d og)"
  by (cases fuel) simp_all


lemma walk_to_lookup:
  "walk_chain pr (p # ps) \<Longrightarrow> last (p # ps) \<le> 1 \<Longrightarrow> length ps \<le> fuel \<Longrightarrow>
   findContainerForPid fuel pr d p = Some (pidns_lookup pr d p)"
  unfolding findContainerForPid_def by (simp only: loop_chain loop_top)


text \<open>
  C9. When the walk from \<open>p\<close> ends at pid 1 (or below), the link of \<open>p\<close> is read and the
  containers are listed: if every container before \<open>cn\<close> loads with another link, and
  loading \<open>cn\<close> or reading the link of its init fails with \<open>e\<close>, the answer is that
  error, whatever containers are listed after \<open>cn\<close>. And the answer is
  \<open>pidNotInContainerErr\<close> only if the link of \<open>p\<close> was read, the containers were listed,
  and every one of them loads with another link.
\<close>

theorem pidns_lookup_aborts:
  "(walk_chain pr (p # ps) \<and> last (p # ps) \<le> 1 \<and> length ps \<le> fuel \<and> ns_pid pr p = Inr ns \<and>
    dbListContainers d = Inr (pre @ cn # post) \<and> (\<forall>x \<in> set pre. loads_other pr d ns x) \<and>
    load_fails pr d cn e \<longrightarrow>
      findContainerForPid fuel pr d p = Some (Inl (ErrOther e))) \<and>
   (findContainerForPid fuel pr d p = Some (Inl pidNotInContainerErr) \<longrightarrow>
      (\<exists>ns cs. ns_pid pr p = Inr ns \<and> dbListContainers d = Inr cs \<and>
               (\<forall>x \<in> set cs. loads_other pr d ns x)))"
proof (intro conjI impI)
  assume a: "walk_chain pr (p # ps) \<and> last (p # ps) \<le> 1 \<and> length ps \<le> fuel \<and>
    ns_pid pr p = Inr ns \<and> dbListContainers d = Inr (pre @ cn # post) \<and>
    (\<forall>x \<in> set pre. loads_other pr d ns x) \<and> load_fails pr d cn e"
  then have w: "walk_chain pr (p # ps)" and l: "length ps \<le> fuel" and t: "last (p # ps) \<le> 1"
    by simp_all
  have "findContainerForPid fuel pr d p = Some (pidns_lookup pr d p)"
    using w t l by (rule walk_to_lookup)
  moreover have "pidns_lookup pr d p = containers_range pr d ns (pre @ cn # post)"
    using a by (simp add: pidns_lookup_def)
  moreover have "containers_range pr d ns (pre @ cn # post) = Inl (ErrOther e)"
    using a by (simp add: containers_range_skip containers_range_fails del: containers_range.simps)
  ultimately show "findContainerForPid fuel pr d p = Some (Inl (ErrOther e))"
    by simp
next
  assume "findContainerForPid fuel pr d p = Some (Inl pidNotInContainerErr)"
  then have "pidns_lookup pr d p = Inl pidNotInContainerErr"
    unfolding findContainerForPid_def by (rule loop_not_in_container)
  then show "\<exists>ns cs. ns_pid pr p = Inr ns \<and> dbListContainers d = Inr cs \<and>
               (\<forall>x \<in> set cs. loads_other pr d ns x)"
    by (auto simp add: pidns_lookup_def containers_range_none split: sum.splits)
qed


lemma walk_5000: "walk_chain proc0 [5000, 900, 1]"
  by code_simp

lemma walk_900: "walk_chain proc0 [900, 1]"
  by code_simp

lemma containers_900: "list_all (loads_other proc0 daemon0 ''pid:[4026531836]'') [''c0'', ''c1'']"
  by code_simp



theorem pidns_lookup_aborts_witness:
  "walk_chain proc0 [5000, 900, 1] \<and> ns_pid proc0 5000 = Inr ''pid:[4026532200]'' \<and>
   dbListContainers daemon1 = Inr ([] @ ''c0'' # [''c1'']) \<and>
   load_fails proc0 daemon1 ''c0'' ''database is locked'' \<and>
   newLxdContainer daemon1 ''c1'' = Inr c1 \<and>
   ns_pid proc0 (InitPid (c_lxc c1)) = Inr ''pid:[4026532200]'' \<and>
   findContainerForPid 2 proc0 daemon1 5000 = Some (Inl (ErrOther ''database is locked'')) \<and>
   findContainerForPid 1 proc0 daemon0 900 = Some (Inl pidNotInContainerErr) \<and>
   (\<exists>ns cs. ns_pid proc0 900 = Inr ns \<and> dbListContainers daemon0 = Inr cs \<and>
            list_all (loads_other proc0 daemon0 ns) cs)"
proof -
  have a: "last [5000, 900, 1] \<le> (1::int) \<and> length [900, 1 :: int] \<le> 2 \<and>
      ns_pid proc0 5000 = Inr ''pid:[4026532200]'' \<and>
      dbListContainers daemon1 = Inr ([] @ ''c0'' # [''c1'']) \<and>
      (\<forall>x \<in> set []. loads_other proc0 daemon1 ''pid:[4026532200]'' x)"
    by (simp add: proc0_def daemon1_def)
  have f: "load_fails proc0 daemon1 ''c0'' ''database is locked''"
    by (simp add: load_fails_def daemon1_def)
  have l: "newLxdContainer daemon1 ''c1'' = Inr c1 \<and>
      ns_pid proc0 (InitPid (c_lxc c1)) = Inr ''pid:[4026532200]''"
    by (simp add: proc0_def daemon1_def c1_def)
  from walk_5000 a f
    pidns_lookup_aborts [where pr = proc0 and p = 5000 and ps = "[900, 1]" and fuel = 2
      and d = daemon1 and ns = "''pid:[4026532200]''" and pre = "[]" and cn = "''c0''"
      and post = "[''c1'']" and e = "''database is locked''"]
  have r1: "findContainerForPid 2 proc0 daemon1 5000 = Some (Inl (ErrOther ''database is locked''))"
    by blast
  have n: "\<forall>x \<in> set [''c0'', ''c1'']. loads_other proc0 daemon0 ''pid:[4026531836]'' x"
    using containers_900 by (simp add: list_all_iff)
  have "pidns_lookup proc0 daemon0 900 = Inl pidNotInContainerErr"
    using n by (simp add: pidns_lookup_def proc0_def daemon0_def containers_range_none
        del: containers_range.simps)
  moreover have "findContainerForPid 1 proc0 daemon0 900 = Some (pidns_lookup proc0 daemon0 900)"
    using walk_900 by (rule walk_to_lookup) simp_all
  ultimately have h: "findContainerForPid 1 proc0 daemon0 900 = Some (Inl pidNotInContainerErr)"
    by simp
  from h pidns_lookup_aborts [where pr = proc0 and p = 900 and fuel = 1 and d = daemon0
      and ps = "[1]" and ns = "''x''" and pre = "[]" and cn = "''c0''" and post = "[]" and e = "''x''"]
  have "\<exists>ns cs. ns_pid proc0 900 = Inr ns \<and> dbListContainers daemon0 = Inr cs \<and>
               (\<forall>x \<in> set cs. loads_other proc0 daemon0 ns x)"
    by blast
  then have r2: "\<exists>ns cs. ns_pid proc0 900 = Inr ns \<and> dbListContainers daemon0 = Inr cs \<and>
            list_all (loads_other proc0 daemon0 ns) cs"
    by (simp add: list_all_iff)
  from walk_5000 a f l r1 h r2 show ?thesis
    by blast
qed

end
